theory Spec2Isabelle
  imports Complex_Main
begin

section \<open>Python values\<close>

text \<open>
  The engine's replies and the handlers' response bodies are dynamically typed Python
  objects. A dictionary is an association list (keys are distinct in a real dictionary;
  lookup takes the first binding). The floating-point type is a parameter \<open>'f\<close>: the
  handlers only pass floats through.
\<close>

datatype 'f pyval =
    PNone
  | PBool bool
  | PInt int
  | PFloat 'f
  | PStr string
  | PList "'f pyval list"
  | PDict "('f pyval \<times> 'f pyval) list"

text \<open>
  An exception is represented by the text that \<open>str(e)\<close> gives: the handlers observe
  nothing else of it. Only subclasses of \<open>Exception\<close> are meant.
\<close>

type_synonym exn = string

text \<open>
  The parts of the Python runtime that the handlers call and whose results they do not
  inspect: the literal \<open>0.0\<close>, the truth value of a float, \<open>float(v)\<close> for a value
  that is not a float, \<open>str(v)\<close> for a value that is not a string, and the texts of the
  AttributeError raised by \<open>v.get\<close> and of the TypeError raised by iterating \<open>v\<close>.
\<close>

record 'f runtime =
  float_zero :: "'f"
  float_truth :: "'f \<Rightarrow> bool"
  float_conv :: "'f pyval \<Rightarrow> exn + 'f"
  str_conv :: "'f pyval \<Rightarrow> string"
  no_attribute_get :: "'f pyval \<Rightarrow> exn"
  not_iterable :: "'f pyval \<Rightarrow> exn"

text \<open>Truth value testing, as in \<open>if results:\<close> and \<open>request.metadata or {}\<close>.\<close>

fun truthy :: "'f runtime \<Rightarrow> 'f pyval \<Rightarrow> bool" where
  "truthy rt PNone = False"
| "truthy rt (PBool b) = b"
| "truthy rt (PInt i) = (i \<noteq> 0)"
| "truthy rt (PFloat f) = float_truth rt f"
| "truthy rt (PStr s) = (s \<noteq> [])"
| "truthy rt (PList xs) = (xs \<noteq> [])"
| "truthy rt (PDict kvs) = (kvs \<noteq> [])"

text \<open>\<open>str(v)\<close> and \<open>float(v)\<close>.\<close>

fun py_str :: "'f runtime \<Rightarrow> 'f pyval \<Rightarrow> string" where
  "py_str rt (PStr s) = s"
| "py_str rt v = str_conv rt v"

fun py_float :: "'f runtime \<Rightarrow> 'f pyval \<Rightarrow> exn + 'f" where
  "py_float rt (PFloat f) = Inr f"
| "py_float rt v = float_conv rt v"

text \<open>
  The tests \<open>isinstance(v, dict) and 'results' in v\<close> and \<open>isinstance(v, list)\<close>, and the
  lookup \<open>v[k]\<close> of a string key as an option (\<open>None\<close> where Python raises).
\<close>

definition has_results :: "'f pyval \<Rightarrow> bool" where
  "has_results v = (case v of PDict kvs \<Rightarrow> map_of kvs (PStr ''results'') \<noteq> None | _ \<Rightarrow> False)"

definition isinstance_list :: "'f pyval \<Rightarrow> bool" where
  "isinstance_list v = (case v of PList xs \<Rightarrow> True | _ \<Rightarrow> False)"

definition item :: "'f pyval \<Rightarrow> string \<Rightarrow> 'f pyval option" where
  "item v k = (case v of PDict kvs \<Rightarrow> map_of kvs (PStr k) | _ \<Rightarrow> None)"

text \<open>\<open>d.get(k, default)\<close> on a dictionary \<open>d\<close> with a string key \<open>k\<close>.\<close>

definition dict_get :: "('f pyval \<times> 'f pyval) list \<Rightarrow> string \<Rightarrow> 'f pyval \<Rightarrow> 'f pyval" where
  "dict_get kvs k d = (case map_of kvs (PStr k) of None \<Rightarrow> d | Some v \<Rightarrow> v)"

text \<open>
  The values a \<open>for\<close> loop draws from an object: the elements of a list, the keys of a
  dictionary, the one-character strings of a string; anything else raises TypeError.
\<close>

fun py_iter :: "'f runtime \<Rightarrow> 'f pyval \<Rightarrow> exn + 'f pyval list" where
  "py_iter rt (PList xs) = Inr xs"
| "py_iter rt (PDict kvs) = Inr (map fst kvs)"
| "py_iter rt (PStr s) = Inr (map (\<lambda>c. PStr [c]) s)"
| "py_iter rt v = Inl (not_iterable rt v)"

section \<open>Requests and responses\<close>

record Message =
  role :: string
  content :: string

record 'f AddMemoryRequest =
  messages :: "Message list"
  add_user_id :: string
  metadata :: "('f pyval \<times> 'f pyval) list option"

record SearchMemoryRequest =
  query :: string
  search_user_id :: string
  limit :: int

text \<open>
  A handler either returns a body (status 200) or raises \<open>HTTPException\<close> with a status
  code and a detail text.
\<close>

datatype 'f response = Ok "'f pyval" | HTTPException nat string

section \<open>The memory engine\<close>

text \<open>
  The engine is an external, stateful object with four methods. Each takes the engine's
  state \<open>'s\<close> and returns the new state with either the exception it raised or its
  result. The world a handler runs in holds the engine's state and the log of the calls
  made to the engine so far.
\<close>

record ('f, 's) Memory =
  add :: "'f pyval list \<Rightarrow> string \<Rightarrow> 'f pyval \<Rightarrow> 's \<Rightarrow> (exn + 'f pyval) \<times> 's"
  search :: "string \<Rightarrow> string \<Rightarrow> int \<Rightarrow> 's \<Rightarrow> (exn + 'f pyval) \<times> 's"
  get_all :: "string \<Rightarrow> 's \<Rightarrow> (exn + 'f pyval) \<times> 's"
  delete_all :: "string \<Rightarrow> 's \<Rightarrow> (exn + 'f pyval) \<times> 's"

datatype 'f call =
    Add "'f pyval list" string "'f pyval"
  | Search string string int
  | GetAll string
  | DeleteAll string

record ('f, 's) world =
  engine_state :: "'s"
  calls :: "'f call list"

definition invoke ::
  "'f call \<Rightarrow> ('s \<Rightarrow> (exn + 'f pyval) \<times> 's) \<Rightarrow> ('f, 's) world
     \<Rightarrow> (exn + 'f pyval) \<times> ('f, 's) world" where
  "invoke c f w =
     (case f (engine_state w) of
        (r, s') \<Rightarrow> (r, \<lparr>engine_state = s', calls = calls w @ [c]\<rparr>))"

definition memory_add ::
  "('f, 's) Memory \<Rightarrow> 'f pyval list \<Rightarrow> string \<Rightarrow> 'f pyval \<Rightarrow> ('f, 's) world
     \<Rightarrow> (exn + 'f pyval) \<times> ('f, 's) world" where
  "memory_add m msgs uid md = invoke (Add msgs uid md) (add m msgs uid md)"

definition memory_search ::
  "('f, 's) Memory \<Rightarrow> string \<Rightarrow> string \<Rightarrow> int \<Rightarrow> ('f, 's) world
     \<Rightarrow> (exn + 'f pyval) \<times> ('f, 's) world" where
  "memory_search m q uid n = invoke (Search q uid n) (search m q uid n)"

definition memory_get_all ::
  "('f, 's) Memory \<Rightarrow> string \<Rightarrow> ('f, 's) world \<Rightarrow> (exn + 'f pyval) \<times> ('f, 's) world" where
  "memory_get_all m uid = invoke (GetAll uid) (get_all m uid)"

definition memory_delete_all ::
  "('f, 's) Memory \<Rightarrow> string \<Rightarrow> ('f, 's) world \<Rightarrow> (exn + 'f pyval) \<times> ('f, 's) world" where
  "memory_delete_all m uid = invoke (DeleteAll uid) (delete_all m uid)"

section \<open>The handlers\<close>

text \<open>
  The engine handle \<open>memory\<close> is \<open>None\<close> when initialisation failed and the engine
  object otherwise (an engine object is true in a truth test). It is set once at start-up
  and is a parameter of every handler. Logging, request validation and the encoding of
  the response body are outside the handlers' logic and are left out.
\<close>

definition root :: "('f, 's) Memory option \<Rightarrow> 'f pyval" where
  "root memory =
     PDict [(PStr ''service'', PStr ''ProjectZ Mem0 Service''),
            (PStr ''status'', PStr (case memory of Some m \<Rightarrow> ''running'' | None \<Rightarrow> ''error'')),
            (PStr ''version'', PStr ''1.0.0'')]"

definition health :: "('f, 's) Memory option \<Rightarrow> 'f response" where
  "health memory =
     (case memory of
        None \<Rightarrow> HTTPException 503 ''Mem0 not initialized''
      | Some m \<Rightarrow> Ok (PDict [(PStr ''status'', PStr ''healthy'')]))"

subsection \<open>Add\<close>

definition message_dict :: "Message \<Rightarrow> 'f pyval" where
  "message_dict msg = PDict [(PStr ''role'', PStr (role msg)), (PStr ''content'', PStr (content msg))]"

text \<open>\<open>request.metadata or {}\<close>: the metadata when it is given and not empty.\<close>

definition metadata_or_empty :: "'f runtime \<Rightarrow> ('f pyval \<times> 'f pyval) list option \<Rightarrow> 'f pyval" where
  "metadata_or_empty rt md =
     (case md of
        None \<Rightarrow> PDict []
      | Some kvs \<Rightarrow> if truthy rt (PDict kvs) then PDict kvs else PDict [])"

definition add_memory ::
  "'f runtime \<Rightarrow> ('f, 's) Memory option \<Rightarrow> 'f AddMemoryRequest \<Rightarrow> ('f, 's) world
     \<Rightarrow> 'f response \<times> ('f, 's) world" where
  "add_memory rt memory request w =
     (case memory of
        None \<Rightarrow> (HTTPException 503 ''Mem0 not initialized'', w)
      | Some m \<Rightarrow>
          (case memory_add m (map message_dict (messages request)) (add_user_id request)
                  (metadata_or_empty rt (metadata request)) w of
             (Inl e, w') \<Rightarrow> (HTTPException 500 e, w')
           | (Inr result, w') \<Rightarrow>
               (Ok (PDict [(PStr ''success'', PBool True),
                           (PStr ''result'', result),
                           (PStr ''message'', PStr ''Memories extracted and stored'')]), w')))"

subsection \<open>Search and list\<close>

text \<open>
  The sequence the loop runs over: \<open>results['results']\<close> for a dictionary with that key,
  the reply itself for a list, the empty list otherwise.
\<close>

definition result_list :: "'f pyval \<Rightarrow> 'f pyval" where
  "result_list results =
     (case results of
        PDict kvs \<Rightarrow> (case map_of kvs (PStr ''results'') of Some v \<Rightarrow> v | None \<Rightarrow> PList [])
      | PList xs \<Rightarrow> PList xs
      | _ \<Rightarrow> PList [])"

text \<open>The dictionary appended for one record; \<open>result.get\<close> exists on dictionaries only.\<close>

definition search_record :: "'f runtime \<Rightarrow> 'f pyval \<Rightarrow> exn + 'f pyval" where
  "search_record rt result =
     (case result of
        PDict kvs \<Rightarrow>
          (case py_float rt (dict_get kvs ''score'' (PFloat (float_zero rt))) of
             Inl e \<Rightarrow> Inl e
           | Inr f \<Rightarrow>
               Inr (PDict [(PStr ''id'', PStr (py_str rt (dict_get kvs ''id'' (PStr '''')))),
                           (PStr ''memory'', PStr (py_str rt (dict_get kvs ''memory'' (PStr '''')))),
                           (PStr ''score'', PFloat f),
                           (PStr ''metadata'', dict_get kvs ''metadata'' (PDict []))]))
      | _ \<Rightarrow> Inl (no_attribute_get rt result))"

definition all_record :: "'f runtime \<Rightarrow> 'f pyval \<Rightarrow> exn + 'f pyval" where
  "all_record rt result =
     (case result of
        PDict kvs \<Rightarrow>
          Inr (PDict [(PStr ''id'', PStr (py_str rt (dict_get kvs ''id'' (PStr '''')))),
                      (PStr ''memory'', PStr (py_str rt (dict_get kvs ''memory'' (PStr '''')))),
                      (PStr ''metadata'', dict_get kvs ''metadata'' (PDict []))])
      | _ \<Rightarrow> Inl (no_attribute_get rt result))"

text \<open>The loop \<open>for result in result_list: memories.append(...)\<close>; an exception ends it.\<close>

fun append_all ::
  "('f pyval \<Rightarrow> exn + 'f pyval) \<Rightarrow> 'f pyval list \<Rightarrow> 'f pyval list \<Rightarrow> exn + 'f pyval list" where
  "append_all rec [] memories = Inr memories"
| "append_all rec (result # rest) memories =
     (case rec result of
        Inl e \<Rightarrow> Inl e
      | Inr r \<Rightarrow> append_all rec rest (memories @ [r]))"

definition collect ::
  "'f runtime \<Rightarrow> ('f pyval \<Rightarrow> exn + 'f pyval) \<Rightarrow> 'f pyval \<Rightarrow> exn + 'f pyval list" where
  "collect rt rec results =
     (if truthy rt results
      then (case py_iter rt (result_list results) of
              Inl e \<Rightarrow> Inl e
            | Inr xs \<Rightarrow> append_all rec xs [])
      else Inr [])"

definition memories_body :: "'f pyval list \<Rightarrow> 'f pyval" where
  "memories_body memories =
     PDict [(PStr ''success'', PBool True),
            (PStr ''count'', PInt (int (length memories))),
            (PStr ''memories'', PList memories)]"

text \<open>What a handler makes of the engine's reply, once the engine has returned.\<close>

definition reply_response ::
  "'f runtime \<Rightarrow> ('f pyval \<Rightarrow> exn + 'f pyval) \<Rightarrow> 'f pyval \<Rightarrow> 'f response" where
  "reply_response rt rec results =
     (case collect rt rec results of
        Inl e \<Rightarrow> HTTPException 500 e
      | Inr memories \<Rightarrow> Ok (memories_body memories))"

definition search_memories ::
  "'f runtime \<Rightarrow> ('f, 's) Memory option \<Rightarrow> SearchMemoryRequest \<Rightarrow> ('f, 's) world
     \<Rightarrow> 'f response \<times> ('f, 's) world" where
  "search_memories rt memory request w =
     (case memory of
        None \<Rightarrow> (HTTPException 503 ''Mem0 not initialized'', w)
      | Some m \<Rightarrow>
          (case memory_search m (query request) (search_user_id request) (limit request) w of
             (Inl e, w') \<Rightarrow> (HTTPException 500 e, w')
           | (Inr results, w') \<Rightarrow> (reply_response rt (search_record rt) results, w')))"

definition get_all_memories ::
  "'f runtime \<Rightarrow> ('f, 's) Memory option \<Rightarrow> string \<Rightarrow> ('f, 's) world
     \<Rightarrow> 'f response \<times> ('f, 's) world" where
  "get_all_memories rt memory uid w =
     (case memory of
        None \<Rightarrow> (HTTPException 503 ''Mem0 not initialized'', w)
      | Some m \<Rightarrow>
          (case memory_get_all m uid w of
             (Inl e, w') \<Rightarrow> (HTTPException 500 e, w')
           | (Inr results, w') \<Rightarrow> (reply_response rt (all_record rt) results, w')))"

subsection \<open>Clear\<close>

definition clear_memories ::
  "('f, 's) Memory option \<Rightarrow> string \<Rightarrow> ('f, 's) world \<Rightarrow> 'f response \<times> ('f, 's) world" where
  "clear_memories memory uid w =
     (case memory of
        None \<Rightarrow> (HTTPException 503 ''Mem0 not initialized'', w)
      | Some m \<Rightarrow>
          (case memory_delete_all m uid w of
             (Inl e, w') \<Rightarrow> (HTTPException 500 e, w')
           | (Inr v, w') \<Rightarrow>
               (Ok (PDict [(PStr ''success'', PBool True),
                           (PStr ''message'', PStr ''All memories cleared'')]), w')))"

section \<open>Sample runtime and engine\<close>

text \<open>
  A runtime and an engine on which the model can be evaluated. The sample runtime takes
  the reals for the floats and converts integers and booleans; the sample engine answers
  every call with one fixed outcome and counts the calls in its state.
\<close>

definition sample_runtime :: "real runtime" where
  "sample_runtime =
     \<lparr>float_zero = 0,
      float_truth = (\<lambda>f. f \<noteq> 0),
      float_conv = (\<lambda>v. case v of
                            PInt i \<Rightarrow> Inr (of_int i)
                          | PBool b \<Rightarrow> Inr (if b then 1 else 0)
                          | _ \<Rightarrow> Inl ''float() argument must be a string or a real number''),
      str_conv = (\<lambda>v. case v of
                          PNone \<Rightarrow> ''None''
                        | PBool b \<Rightarrow> (if b then ''True'' else ''False'')
                        | _ \<Rightarrow> ''<object>''),
      no_attribute_get = (\<lambda>v. ''object has no attribute get''),
      not_iterable = (\<lambda>v. ''object is not iterable'')\<rparr>"

definition replying :: "exn + 'f pyval \<Rightarrow> ('f, nat) Memory" where
  "replying r =
     \<lparr>add = (\<lambda>msgs uid md s. (r, Suc s)),
      search = (\<lambda>q uid n s. (r, Suc s)),
      get_all = (\<lambda>uid s. (r, Suc s)),
      delete_all = (\<lambda>uid s. (r, Suc s))\<rparr>"

definition fresh :: "('f, nat) world" where
  "fresh = \<lparr>engine_state = 0, calls = []\<rparr>"

section \<open>Engine not initialised\<close>

text \<open>
  C1. With the engine handle \<open>None\<close>, each of /health, /add, /search, /all and /clear
  raises HTTPException 503, and the world is returned as it was: the engine's state is
  untouched and no call is added to the log.
\<close>

theorem unavailable_503:
  "health (None :: ('f, 's) Memory option) = HTTPException 503 ''Mem0 not initialized''
   \<and> add_memory rt (None :: ('f, 's) Memory option) areq w
       = (HTTPException 503 ''Mem0 not initialized'', w)
   \<and> search_memories rt (None :: ('f, 's) Memory option) sreq w
       = (HTTPException 503 ''Mem0 not initialized'', w)
   \<and> get_all_memories rt (None :: ('f, 's) Memory option) uid w
       = (HTTPException 503 ''Mem0 not initialized'', w)
   \<and> clear_memories (None :: ('f, 's) Memory option) uid w
       = (HTTPException 503 ''Mem0 not initialized'', w)"
  by (simp add: health_def add_memory_def search_memories_def get_all_memories_def
      clear_memories_def)

section \<open>The loop and the reply\<close>

lemma append_all_Inr:
  "append_all rc xs acc = Inr ms \<Longrightarrow>
     length ms = length acc + length xs \<and> take (length acc) ms = acc
     \<and> (\<forall>i<length xs. rc (xs ! i) = Inr (ms ! (length acc + i)))"
proof (induction xs arbitrary: acc)
  case Nil
  then show ?case by simp
next
  case (Cons x xs)
  from Cons.prems obtain r where r: "rc x = Inr r" and rest: "append_all rc xs (acc @ [r]) = Inr ms"
    by (auto split: sum.splits)
  from Cons.IH [OF rest]
  have len: "length ms = length (acc @ [r]) + length xs"
    and tk: "take (length (acc @ [r])) ms = acc @ [r]"
    and ix: "\<forall>i<length xs. rc (xs ! i) = Inr (ms ! (length (acc @ [r]) + i))"
    by blast+
  have tk': "take (length acc) ms = acc"
  proof -
    have "take (length acc) (take (length (acc @ [r])) ms) = take (length acc) (acc @ [r])"
      by (simp only: tk)
    then show ?thesis by (simp add: min_def)
  qed
  have at: "ms ! length acc = r"
  proof -
    have "take (length (acc @ [r])) ms ! length acc = (acc @ [r]) ! length acc"
      by (simp only: tk)
    then show ?thesis by simp
  qed
  have "\<forall>i<length (x # xs). rc ((x # xs) ! i) = Inr (ms ! (length acc + i))"
  proof (intro allI impI)
    fix i assume "i < length (x # xs)"
    show "rc ((x # xs) ! i) = Inr (ms ! (length acc + i))"
    proof (cases i)
      case 0
      then show ?thesis using r at by simp
    next
      case (Suc j)
      with \<open>i < length (x # xs)\<close> have "j < length xs" by simp
      with ix have "rc (xs ! j) = Inr (ms ! (length (acc @ [r]) + j))" by blast
      then show ?thesis using Suc by simp
    qed
  qed
  with len tk' show ?case by simp
qed

lemma append_all_total:
  "\<forall>x\<in>set xs. \<exists>r. rc x = Inr r \<Longrightarrow> \<exists>ms. append_all rc xs acc = Inr ms"
proof (induction xs arbitrary: acc)
  case Nil
  then show ?case by simp
next
  case (Cons x xs)
  then obtain r where "rc x = Inr r" by auto
  moreover from Cons have "\<exists>ms. append_all rc xs (acc @ [r]) = Inr ms" by simp
  ultimately show ?case by simp
qed

lemma append_all_pred:
  "append_all rc xs acc = Inr ms \<Longrightarrow> (\<And>x r. rc x = Inr r \<Longrightarrow> P r) \<Longrightarrow> \<forall>r\<in>set acc. P r
     \<Longrightarrow> \<forall>r\<in>set ms. P r"
proof (induction xs arbitrary: acc)
  case Nil
  then show ?case by simp
next
  case (Cons x xs)
  from Cons.prems(1) obtain r where r: "rc x = Inr r" and rest: "append_all rc xs (acc @ [r]) = Inr ms"
    by (auto split: sum.splits)
  have "\<forall>r\<in>set (acc @ [r]). P r" using Cons.prems(2) [OF r] Cons.prems(3) by simp
  from Cons.IH [OF rest Cons.prems(2) this] show ?case by simp
qed

lemma collect_accepted:
  assumes "reply = PList s \<or> (\<exists>kvs. reply = PDict kvs \<and> map_of kvs (PStr ''results'') = Some (PList s))"
  shows "collect rt rc reply = append_all rc s []"
  using assms by (cases s) (auto simp: collect_def result_list_def)

lemma collect_unrecognised:
  "\<not> has_results reply \<Longrightarrow> \<not> isinstance_list reply \<Longrightarrow> collect rt rc reply = Inr []"
  by (cases reply) (auto simp: collect_def result_list_def has_results_def isinstance_list_def)

lemma collect_pred:
  assumes "collect rt rc reply = Inr ms" and "\<And>x r. rc x = Inr r \<Longrightarrow> P r"
  shows "\<forall>r\<in>set ms. P r"
proof (cases "truthy rt reply")
  case True
  with assms(1) obtain xs where "append_all rc xs [] = Inr ms"
    by (auto simp: collect_def split: sum.splits)
  from append_all_pred [OF this assms(2)] show ?thesis by simp
next
  case False
  with assms(1) show ?thesis by (simp add: collect_def)
qed

lemma item_memories_body:
  "item (memories_body ms) ''memories'' = Some (PList ms)"
  "item (memories_body ms) ''count'' = Some (PInt (int (length ms)))"
  "item (memories_body ms) ''success'' = Some (PBool True)"
  by (simp_all add: item_def memories_body_def)

lemma search_memories_Some:
  "search m (query request) (search_user_id request) (limit request) (engine_state w) = (r, s') \<Longrightarrow>
   search_memories rt (Some m) request w =
     ((case r of Inl e \<Rightarrow> HTTPException 500 e | Inr results \<Rightarrow> reply_response rt (search_record rt) results),
      \<lparr>engine_state = s', calls = calls w @ [Search (query request) (search_user_id request) (limit request)]\<rparr>)"
  by (simp add: search_memories_def memory_search_def invoke_def split: sum.splits)

lemma get_all_memories_Some:
  "get_all m uid (engine_state w) = (r, s') \<Longrightarrow>
   get_all_memories rt (Some m) uid w =
     ((case r of Inl e \<Rightarrow> HTTPException 500 e | Inr results \<Rightarrow> reply_response rt (all_record rt) results),
      \<lparr>engine_state = s', calls = calls w @ [GetAll uid]\<rparr>)"
  by (simp add: get_all_memories_def memory_get_all_def invoke_def split: sum.splits)

lemma search_memories_Ok:
  "search_memories rt memory request w = (Ok body, w') \<Longrightarrow>
     \<exists>reply ms. collect rt (search_record rt) reply = Inr ms \<and> body = memories_body ms"
  by (auto simp: search_memories_def reply_response_def split: option.splits sum.splits prod.splits)

lemma get_all_memories_Ok:
  "get_all_memories rt memory uid w = (Ok body, w') \<Longrightarrow>
     \<exists>reply ms. collect rt (all_record rt) reply = Inr ms \<and> body = memories_body ms"
  by (auto simp: get_all_memories_def reply_response_def split: option.splits sum.splits prod.splits)

section \<open>Both reply shapes\<close>

text \<open>
  C2. For every sequence of records \<open>s\<close>, the reply \<open>{"results": s}\<close> and the bare reply
  \<open>s\<close> give the same response, for search and for list alike (the same memories on
  success, the same error otherwise).
\<close>

theorem both_shapes_same:
  "reply_response rt (search_record rt) (PDict [(PStr ''results'', PList s)])
     = reply_response rt (search_record rt) (PList s)
   \<and> reply_response rt (all_record rt) (PDict [(PStr ''results'', PList s)])
     = reply_response rt (all_record rt) (PList s)"
  by (cases s) (simp_all add: reply_response_def collect_def result_list_def)

section \<open>Fields of a search record\<close>




section \<open>Arguments of the add call\<close>

text \<open>
  C4. For every add request handled with a ready engine, exactly one call is made to the
  engine: \<open>add\<close> with one dictionary \<open>{role, content}\<close> per message of the request in the
  request's order, the request's user id, and the request's metadata, or the empty
  mapping when the metadata is omitted. The engine's new state is the one that this very
  call of its \<open>add\<close> method returns.
\<close>

theorem add_passes_arguments:
  "\<exists>msgs md.
      calls (snd (add_memory rt (Some m) request w)) = calls w @ [Add msgs (add_user_id request) md]
    \<and> engine_state (snd (add_memory rt (Some m) request w))
         = snd (add m msgs (add_user_id request) md (engine_state w))
    \<and> md = PDict (case metadata request of None \<Rightarrow> [] | Some kvs \<Rightarrow> kvs)
    \<and> length msgs = length (messages request)
    \<and> (\<forall>i<length (messages request).
          msgs ! i = PDict [(PStr ''role'', PStr (role (messages request ! i))),
                            (PStr ''content'', PStr (content (messages request ! i)))])"
proof -
  let ?msgs = "map message_dict (messages request) :: 'a pyval list"
  let ?md = "metadata_or_empty rt (metadata request)"
  obtain r s' where call: "add m ?msgs (add_user_id request) ?md (engine_state w) = (r, s')"
    by (cases "add m ?msgs (add_user_id request) ?md (engine_state w)")
  have w': "snd (add_memory rt (Some m) request w)
      = \<lparr>engine_state = s', calls = calls w @ [Add ?msgs (add_user_id request) ?md]\<rparr>"
    using call by (cases r) (simp_all add: add_memory_def memory_add_def invoke_def)
  have md: "?md = PDict (case metadata request of None \<Rightarrow> [] | Some kvs \<Rightarrow> kvs)"
    by (simp add: metadata_or_empty_def split: option.splits)
  have ix: "\<forall>i<length (messages request).
      ?msgs ! i = PDict [(PStr ''role'', PStr (role (messages request ! i))),
                         (PStr ''content'', PStr (content (messages request ! i)))]"
    by (simp add: message_dict_def)
  have "calls (snd (add_memory rt (Some m) request w)) = calls w @ [Add ?msgs (add_user_id request) ?md]
    \<and> engine_state (snd (add_memory rt (Some m) request w))
         = snd (add m ?msgs (add_user_id request) ?md (engine_state w))
    \<and> ?md = PDict (case metadata request of None \<Rightarrow> [] | Some kvs \<Rightarrow> kvs)
    \<and> length ?msgs = length (messages request)
    \<and> (\<forall>i<length (messages request).
          ?msgs ! i = PDict [(PStr ''role'', PStr (role (messages request ! i))),
                            (PStr ''content'', PStr (content (messages request ! i)))])"
    using w' call md ix by simp
  then show ?thesis by blast
qed

theorem add_passes_arguments_witness:
  "add_memory sample_runtime (Some (replying (Inr PNone)))
     \<lparr>messages = [\<lparr>role = ''user'', content = ''I like tea''\<rparr>,
                  \<lparr>role = ''assistant'', content = ''Noted''\<rparr>],
      add_user_id = ''alice'', metadata = None\<rparr> fresh
   = (Ok (PDict [(PStr ''success'', PBool True), (PStr ''result'', PNone),
                 (PStr ''message'', PStr ''Memories extracted and stored'')]),
      \<lparr>engine_state = 1,
       calls = [Add [PDict [(PStr ''role'', PStr ''user''), (PStr ''content'', PStr ''I like tea'')],
                     PDict [(PStr ''role'', PStr ''assistant''), (PStr ''content'', PStr ''Noted'')]]
                    ''alice'' (PDict [])]\<rparr>)
   \<and> (\<exists>msgs md.
        [Add [PDict [(PStr ''role'', PStr ''user''), (PStr ''content'', PStr ''I like tea'')],
              PDict [(PStr ''role'', PStr ''assistant''), (PStr ''content'', PStr ''Noted'')]]
             ''alice'' (PDict [])] = [Add msgs ''alice'' (md :: real pyval)]
      \<and> md = PDict []
      \<and> length msgs = 2
      \<and> (\<forall>i<2::nat. msgs ! i
            = PDict [(PStr ''role'', PStr (role ([\<lparr>role = ''user'', content = ''I like tea''\<rparr>,
                         \<lparr>role = ''assistant'', content = ''Noted''\<rparr>] ! i))),
                     (PStr ''content'', PStr (content ([\<lparr>role = ''user'', content = ''I like tea''\<rparr>,
                         \<lparr>role = ''assistant'', content = ''Noted''\<rparr>] ! i)))]))"
proof -
  let ?req = "\<lparr>messages = [\<lparr>role = ''user'', content = ''I like tea''\<rparr>,
                  \<lparr>role = ''assistant'', content = ''Noted''\<rparr>],
      add_user_id = ''alice'', metadata = None\<rparr> :: real AddMemoryRequest"
  have e: "add_memory sample_runtime (Some (replying (Inr PNone))) ?req fresh
   = (Ok (PDict [(PStr ''success'', PBool True), (PStr ''result'', PNone),
                 (PStr ''message'', PStr ''Memories extracted and stored'')]),
      \<lparr>engine_state = 1,
       calls = [Add [PDict [(PStr ''role'', PStr ''user''), (PStr ''content'', PStr ''I like tea'')],
                     PDict [(PStr ''role'', PStr ''assistant''), (PStr ''content'', PStr ''Noted'')]]
                    ''alice'' (PDict [])]\<rparr>)"
    by (simp add: add_memory_def memory_add_def invoke_def replying_def fresh_def
        message_dict_def metadata_or_empty_def)
  show ?thesis
    using e add_passes_arguments [of sample_runtime "replying (Inr PNone)" ?req fresh]
    by (simp add: fresh_def)
qed

section \<open>Clear\<close>

text \<open>
  C8. For every user id and every state of the engine, when the engine's \<open>delete_all\<close>
  returns, /clear has made exactly one call to the engine, \<open>delete_all\<close> with that user id,
  and its response is \<open>{"success": true, "message": "All memories cleared"}\<close>.
\<close>

theorem clear_deletes_for_user:
  "delete_all m uid (engine_state w) = (Inr v, s') \<Longrightarrow>
   clear_memories (Some m) uid w
     = (Ok (PDict [(PStr ''success'', PBool True), (PStr ''message'', PStr ''All memories cleared'')]),
        \<lparr>engine_state = s', calls = calls w @ [DeleteAll uid]\<rparr>)"
  by (simp add: clear_memories_def memory_delete_all_def invoke_def)

theorem clear_deletes_for_user_witness:
  "delete_all (replying (Inr PNone)) ''alice'' (engine_state (fresh :: (real, nat) world))
     = (Inr (PNone :: real pyval), 1)
   \<and> clear_memories (Some (replying (Inr PNone))) ''alice'' (fresh :: (real, nat) world)
     = (Ok (PDict [(PStr ''success'', PBool True), (PStr ''message'', PStr ''All memories cleared'')]),
        \<lparr>engine_state = 1, calls = [DeleteAll ''alice'']\<rparr>)"
proof -
  have h: "delete_all (replying (Inr PNone)) ''alice'' (engine_state (fresh :: (real, nat) world))
     = (Inr (PNone :: real pyval), 1)"
    by (simp add: replying_def fresh_def)
  show ?thesis
    using h clear_deletes_for_user [OF h] by (simp add: fresh_def)
qed

section \<open>Engine failures\<close>




section \<open>Replies of another shape\<close>

text \<open>
  C6. When the engine's reply to search or to list is neither a mapping with a
  \<open>results\<close> key nor a list, the request succeeds with success true, count 0 and no
  memories.
\<close>

theorem unrecognised_reply_is_empty:
  "\<not> has_results reply \<Longrightarrow> \<not> isinstance_list reply \<Longrightarrow>
   (search m (query request) (search_user_id request) (limit request) (engine_state w)
        = (Inr reply, s') \<longrightarrow>
      fst (search_memories rt (Some m) request w)
        = Ok (PDict [(PStr ''success'', PBool True), (PStr ''count'', PInt 0),
                     (PStr ''memories'', PList [])]))
   \<and> (get_all m uid (engine_state w) = (Inr reply, s') \<longrightarrow>
      fst (get_all_memories rt (Some m) uid w)
        = Ok (PDict [(PStr ''success'', PBool True), (PStr ''count'', PInt 0),
                     (PStr ''memories'', PList [])]))"
  by (simp add: search_memories_Some get_all_memories_Some reply_response_def
      collect_unrecognised memories_body_def)

theorem unrecognised_reply_is_empty_witness:
  "\<not> has_results (PDict [(PStr ''items'', PList [PInt 7])] :: real pyval)
   \<and> \<not> isinstance_list (PDict [(PStr ''items'', PList [PInt 7])] :: real pyval)
   \<and> search (replying (Inr (PDict [(PStr ''items'', PList [PInt 7])]))) ''q'' ''alice'' 5
        (engine_state (fresh :: (real, nat) world))
     = (Inr (PDict [(PStr ''items'', PList [PInt 7])]) :: exn + real pyval, 1)
   \<and> fst (search_memories sample_runtime
        (Some (replying (Inr (PDict [(PStr ''items'', PList [PInt 7])]))))
        \<lparr>query = ''q'', search_user_id = ''alice'', limit = 5\<rparr> fresh)
     = Ok (PDict [(PStr ''success'', PBool True), (PStr ''count'', PInt 0),
                  (PStr ''memories'', PList [])])
   \<and> fst (get_all_memories sample_runtime
        (Some (replying (Inr (PDict [(PStr ''items'', PList [PInt 7])])))) ''alice'' fresh)
     = Ok (PDict [(PStr ''success'', PBool True), (PStr ''count'', PInt 0),
                  (PStr ''memories'', PList [])])"
proof -
  let ?reply = "PDict [(PStr ''items'', PList [PInt 7])] :: real pyval"
  let ?req = "\<lparr>query = ''q'', search_user_id = ''alice'', limit = 5\<rparr>"
  have a: "\<not> has_results ?reply" by (simp add: has_results_def)
  have b: "\<not> isinstance_list ?reply" by (simp add: isinstance_list_def)
  have h1: "search (replying (Inr ?reply)) (query ?req) (search_user_id ?req) (limit ?req)
      (engine_state fresh) = (Inr ?reply, 1)"
    by (simp add: replying_def fresh_def)
  have h2: "get_all (replying (Inr ?reply)) ''alice'' (engine_state fresh) = (Inr ?reply, 1)"
    by (simp add: replying_def fresh_def)
  show ?thesis
    using a b h1 h2
      unrecognised_reply_is_empty [OF a b, of "replying (Inr ?reply)" ?req fresh 1 sample_runtime "''alice''"]
    by (simp add: fresh_def)
qed

section \<open>Score only in search results\<close>

lemma all_record_no_score:
  "all_record rt x = Inr r \<Longrightarrow> \<exists>kvs. r = PDict kvs \<and> map_of kvs (PStr ''score'') = None"
  by (cases x) (auto simp: all_record_def)

lemma search_record_score:
  "search_record rt x = Inr r \<Longrightarrow> \<exists>kvs f. r = PDict kvs \<and> map_of kvs (PStr ''score'') = Some (PFloat f)"
  by (cases x) (auto simp: search_record_def split: sum.splits)

text \<open>
  C7. In every success response of /all, no record of \<open>memories\<close> has a \<open>score\<close> field,
  whatever the engine's records held; in every success response of /search, every
  record of \<open>memories\<close> has a \<open>score\<close> field, a float.
\<close>

theorem score_only_in_search:
  "(get_all_memories rt memory uid w = (Ok body, w') \<longrightarrow>
      (\<exists>ms. item body ''memories'' = Some (PList ms)
         \<and> (\<forall>r\<in>set ms. item r ''score'' = None)))
   \<and> (search_memories rt memory request w = (Ok body, w') \<longrightarrow>
      (\<exists>ms. item body ''memories'' = Some (PList ms)
         \<and> (\<forall>r\<in>set ms. \<exists>f. item r ''score'' = Some (PFloat f))))"
proof (intro conjI impI)
  assume "get_all_memories rt memory uid w = (Ok body, w')"
  from get_all_memories_Ok [OF this] obtain reply ms
    where c: "collect rt (all_record rt) reply = Inr ms" and b: "body = memories_body ms"
    by blast
  have "\<forall>r\<in>set ms. item r ''score'' = None"
  proof (rule collect_pred [OF c])
    fix x r assume "all_record rt x = Inr r"
    from all_record_no_score [OF this] show "item r ''score'' = None"
      by (auto simp: item_def)
  qed
  with b show "\<exists>ms. item body ''memories'' = Some (PList ms)
      \<and> (\<forall>r\<in>set ms. item r ''score'' = None)"
    by (auto simp: item_memories_body)
next
  assume "search_memories rt memory request w = (Ok body, w')"
  from search_memories_Ok [OF this] obtain reply ms
    where c: "collect rt (search_record rt) reply = Inr ms" and b: "body = memories_body ms"
    by blast
  have "\<forall>r\<in>set ms. \<exists>f. item r ''score'' = Some (PFloat f)"
  proof (rule collect_pred [OF c])
    fix x r assume "search_record rt x = Inr r"
    from search_record_score [OF this] show "\<exists>f. item r ''score'' = Some (PFloat f)"
      by (auto simp: item_def)
  qed
  with b show "\<exists>ms. item body ''memories'' = Some (PList ms)
      \<and> (\<forall>r\<in>set ms. \<exists>f. item r ''score'' = Some (PFloat f))"
    by (auto simp: item_memories_body)
qed

theorem score_only_in_search_witness:
  "get_all_memories sample_runtime
      (Some (replying (Inr (PList [PDict [(PStr ''id'', PStr ''1''), (PStr ''score'', PFloat 0.9)]]))))
      ''alice'' fresh
     = (Ok (PDict [(PStr ''success'', PBool True), (PStr ''count'', PInt 1),
                   (PStr ''memories'',
                    PList [PDict [(PStr ''id'', PStr ''1''), (PStr ''memory'', PStr []),
                                  (PStr ''metadata'', PDict [])]])]),
        \<lparr>engine_state = 1, calls = [GetAll ''alice'']\<rparr>)
   \<and> item (PDict [(PStr ''id'', PStr ''1''), (PStr ''memory'', PStr []),
                   (PStr ''metadata'', PDict [])] :: real pyval) ''score'' = None
   \<and> search_memories sample_runtime
      (Some (replying (Inr (PList [PDict [(PStr ''id'', PStr ''1''), (PStr ''score'', PFloat 0.9)]]))))
      \<lparr>query = ''q'', search_user_id = ''alice'', limit = 5\<rparr> fresh
     = (Ok (PDict [(PStr ''success'', PBool True), (PStr ''count'', PInt 1),
                   (PStr ''memories'',
                    PList [PDict [(PStr ''id'', PStr ''1''), (PStr ''memory'', PStr []),
                                  (PStr ''score'', PFloat 0.9), (PStr ''metadata'', PDict [])]])]),
        \<lparr>engine_state = 1, calls = [Search ''q'' ''alice'' 5]\<rparr>)
   \<and> (\<exists>f. item (PDict [(PStr ''id'', PStr ''1''), (PStr ''memory'', PStr []),
                        (PStr ''score'', PFloat 0.9), (PStr ''metadata'', PDict [])] :: real pyval)
              ''score'' = Some (PFloat f))"
proof -
  let ?m = "replying (Inr (PList [PDict [(PStr ''id'', PStr ''1''), (PStr ''score'', PFloat 0.9)]]))
      :: (real, nat) Memory"
  let ?req = "\<lparr>query = ''q'', search_user_id = ''alice'', limit = 5\<rparr>"
  let ?lbody = "PDict [(PStr ''success'', PBool True), (PStr ''count'', PInt 1),
                   (PStr ''memories'',
                    PList [PDict [(PStr ''id'', PStr ''1''), (PStr ''memory'', PStr []),
                                  (PStr ''metadata'', PDict [])]])] :: real pyval"
  let ?sbody = "PDict [(PStr ''success'', PBool True), (PStr ''count'', PInt 1),
                   (PStr ''memories'',
                    PList [PDict [(PStr ''id'', PStr ''1''), (PStr ''memory'', PStr []),
                                  (PStr ''score'', PFloat 0.9), (PStr ''metadata'', PDict [])]])]
      :: real pyval"
  have l: "get_all_memories sample_runtime (Some ?m) ''alice'' fresh
      = (Ok ?lbody, \<lparr>engine_state = 1, calls = [GetAll ''alice'']\<rparr>)"
    by (simp add: get_all_memories_def memory_get_all_def invoke_def replying_def fresh_def
        reply_response_def collect_def result_list_def all_record_def dict_get_def
        memories_body_def)
  have s: "search_memories sample_runtime (Some ?m) ?req fresh
      = (Ok ?sbody, \<lparr>engine_state = 1, calls = [Search ''q'' ''alice'' 5]\<rparr>)"
    by (simp add: search_memories_def memory_search_def invoke_def replying_def fresh_def
        reply_response_def collect_def result_list_def search_record_def dict_get_def
        memories_body_def)
  from score_only_in_search [of sample_runtime "Some ?m" "''alice''" fresh ?lbody
      "\<lparr>engine_state = 1, calls = [GetAll ''alice'']\<rparr>"] l
  have a1: "\<exists>ms. item ?lbody ''memories'' = Some (PList ms) \<and> (\<forall>r\<in>set ms. item r ''score'' = None)"
    by blast
  from score_only_in_search [of sample_runtime "Some ?m" _ fresh ?sbody
      "\<lparr>engine_state = 1, calls = [Search ''q'' ''alice'' 5]\<rparr>" ?req] s
  have a2: "\<exists>ms. item ?sbody ''memories'' = Some (PList ms)
      \<and> (\<forall>r\<in>set ms. \<exists>f. item r ''score'' = Some (PFloat f))"
    by blast
  from a1 have b1: "item (PDict [(PStr ''id'', PStr ''1''), (PStr ''memory'', PStr []),
                   (PStr ''metadata'', PDict [])] :: real pyval) ''score'' = None"
    by (simp add: item_def)
  from a2 have b2: "\<exists>f. item (PDict [(PStr ''id'', PStr ''1''), (PStr ''memory'', PStr []),
                        (PStr ''score'', PFloat 0.9), (PStr ''metadata'', PDict [])] :: real pyval)
              ''score'' = Some (PFloat f)"
    by (simp add: item_def)
  from l s b1 b2 show ?thesis by blast
qed

section \<open>Count\<close>

text \<open>
  C9. In every success response of /search and of /all, \<open>count\<close> is the length of the
  \<open>memories\<close> sequence of the same response.
\<close>

theorem count_is_length:
  "(search_memories rt memory request w = (Ok body, w') \<longrightarrow>
      (\<exists>ms. item body ''memories'' = Some (PList ms)
         \<and> item body ''count'' = Some (PInt (int (length ms)))))
   \<and> (get_all_memories rt memory uid w = (Ok body, w') \<longrightarrow>
      (\<exists>ms. item body ''memories'' = Some (PList ms)
         \<and> item body ''count'' = Some (PInt (int (length ms)))))"
proof (intro conjI impI)
  assume "search_memories rt memory request w = (Ok body, w')"
  from search_memories_Ok [OF this] obtain ms where "body = memories_body ms" by blast
  then show "\<exists>ms. item body ''memories'' = Some (PList ms)
      \<and> item body ''count'' = Some (PInt (int (length ms)))"
    by (auto simp: item_memories_body)
next
  assume "get_all_memories rt memory uid w = (Ok body, w')"
  from get_all_memories_Ok [OF this] obtain ms where "body = memories_body ms" by blast
  then show "\<exists>ms. item body ''memories'' = Some (PList ms)
      \<and> item body ''count'' = Some (PInt (int (length ms)))"
    by (auto simp: item_memories_body)
qed

theorem count_is_length_witness:
  "search_memories sample_runtime
      (Some (replying (Inr (PDict [(PStr ''results'',
          PList [PDict [(PStr ''id'', PStr ''1'')], PDict [(PStr ''id'', PStr ''2'')]])]))))
      \<lparr>query = ''q'', search_user_id = ''alice'', limit = 5\<rparr> fresh
     = (Ok (PDict [(PStr ''success'', PBool True), (PStr ''count'', PInt 2),
                   (PStr ''memories'',
                    PList [PDict [(PStr ''id'', PStr ''1''), (PStr ''memory'', PStr []),
                                  (PStr ''score'', PFloat 0), (PStr ''metadata'', PDict [])],
                           PDict [(PStr ''id'', PStr ''2''), (PStr ''memory'', PStr []),
                                  (PStr ''score'', PFloat 0), (PStr ''metadata'', PDict [])]])]),
        \<lparr>engine_state = 1, calls = [Search ''q'' ''alice'' 5]\<rparr>)
   \<and> get_all_memories sample_runtime
      (Some (replying (Inr (PDict [(PStr ''results'',
          PList [PDict [(PStr ''id'', PStr ''1'')], PDict [(PStr ''id'', PStr ''2'')]])]))))
      ''alice'' fresh
     = (Ok (PDict [(PStr ''success'', PBool True), (PStr ''count'', PInt 2),
                   (PStr ''memories'',
                    PList [PDict [(PStr ''id'', PStr ''1''), (PStr ''memory'', PStr []),
                                  (PStr ''metadata'', PDict [])],
                           PDict [(PStr ''id'', PStr ''2''), (PStr ''memory'', PStr []),
                                  (PStr ''metadata'', PDict [])]])]),
        \<lparr>engine_state = 1, calls = [GetAll ''alice'']\<rparr>)
   \<and> (\<exists>ms. item (PDict [(PStr ''success'', PBool True), (PStr ''count'', PInt 2),
                   (PStr ''memories'',
                    PList [PDict [(PStr ''id'', PStr ''1''), (PStr ''memory'', PStr []),
                                  (PStr ''score'', PFloat 0), (PStr ''metadata'', PDict [])],
                           PDict [(PStr ''id'', PStr ''2''), (PStr ''memory'', PStr []),
                                  (PStr ''score'', PFloat 0), (PStr ''metadata'', PDict [])]])])
               ''memories'' = Some (PList (ms :: real pyval list))
          \<and> PInt 2 = (PInt (int (length ms)) :: real pyval))"
proof -
  let ?m = "replying (Inr (PDict [(PStr ''results'',
          PList [PDict [(PStr ''id'', PStr ''1'')], PDict [(PStr ''id'', PStr ''2'')]])]))
      :: (real, nat) Memory"
  let ?req = "\<lparr>query = ''q'', search_user_id = ''alice'', limit = 5\<rparr>"
  let ?sbody = "PDict [(PStr ''success'', PBool True), (PStr ''count'', PInt 2),
                   (PStr ''memories'',
                    PList [PDict [(PStr ''id'', PStr ''1''), (PStr ''memory'', PStr []),
                                  (PStr ''score'', PFloat 0), (PStr ''metadata'', PDict [])],
                           PDict [(PStr ''id'', PStr ''2''), (PStr ''memory'', PStr []),
                                  (PStr ''score'', PFloat 0), (PStr ''metadata'', PDict [])]])]
      :: real pyval"
  have s: "search_memories sample_runtime (Some ?m) ?req fresh
      = (Ok ?sbody, \<lparr>engine_state = 1, calls = [Search ''q'' ''alice'' 5]\<rparr>)"
    by (simp add: search_memories_def memory_search_def invoke_def replying_def fresh_def
        reply_response_def collect_def result_list_def search_record_def dict_get_def
        memories_body_def sample_runtime_def)
  have l: "get_all_memories sample_runtime (Some ?m) ''alice'' fresh
     = (Ok (PDict [(PStr ''success'', PBool True), (PStr ''count'', PInt 2),
                   (PStr ''memories'',
                    PList [PDict [(PStr ''id'', PStr ''1''), (PStr ''memory'', PStr []),
                                  (PStr ''metadata'', PDict [])],
                           PDict [(PStr ''id'', PStr ''2''), (PStr ''memory'', PStr []),
                                  (PStr ''metadata'', PDict [])]])]),
        \<lparr>engine_state = 1, calls = [GetAll ''alice'']\<rparr>)"
    by (simp add: get_all_memories_def memory_get_all_def invoke_def replying_def fresh_def
        reply_response_def collect_def result_list_def all_record_def dict_get_def
        memories_body_def)
  from count_is_length [of sample_runtime "Some ?m" ?req fresh ?sbody
      "\<lparr>engine_state = 1, calls = [Search ''q'' ''alice'' 5]\<rparr>"] s
  have "\<exists>ms. item ?sbody ''memories'' = Some (PList ms)
      \<and> item ?sbody ''count'' = Some (PInt (int (length ms)))"
    by blast
  then have "\<exists>ms. item ?sbody ''memories'' = Some (PList ms)
      \<and> PInt 2 = (PInt (int (length ms)) :: real pyval)"
    by (simp add: item_def)
  with s l show ?thesis by blast
qed

section \<open>One record per engine record\<close>

text \<open>
  C10. When the engine's reply to search or to list is a list \<open>s\<close> or a mapping whose
  \<open>results\<close> entry is a list \<open>s\<close>, the \<open>memories\<close> of a success response has the length
  of \<open>s\<close> and its i-th record is the normalisation of the i-th record of \<open>s\<close>, whatever
  the limit of the request. The response is a success whenever every record of \<open>s\<close>
  can be normalised.
\<close>

theorem one_record_per_engine_record:
  "reply = PList s \<or> (\<exists>kvs. reply = PDict kvs \<and> map_of kvs (PStr ''results'') = Some (PList s)) \<Longrightarrow>
   (search m (query request) (search_user_id request) (limit request) (engine_state w)
        = (Inr reply, s') \<longrightarrow>
      (\<forall>body. fst (search_memories rt (Some m) request w) = Ok body \<longrightarrow>
         (\<exists>ms. item body ''memories'' = Some (PList ms) \<and> length ms = length s
            \<and> (\<forall>i<length s. search_record rt (s ! i) = Inr (ms ! i))))
      \<and> ((\<forall>x\<in>set s. \<exists>r. search_record rt x = Inr r) \<longrightarrow>
           (\<exists>body. fst (search_memories rt (Some m) request w) = Ok body)))
   \<and> (get_all m uid (engine_state w) = (Inr reply, s') \<longrightarrow>
      (\<forall>body. fst (get_all_memories rt (Some m) uid w) = Ok body \<longrightarrow>
         (\<exists>ms. item body ''memories'' = Some (PList ms) \<and> length ms = length s
            \<and> (\<forall>i<length s. all_record rt (s ! i) = Inr (ms ! i))))
      \<and> ((\<forall>x\<in>set s. \<exists>r. all_record rt x = Inr r) \<longrightarrow>
           (\<exists>body. fst (get_all_memories rt (Some m) uid w) = Ok body)))"
proof -
  assume acc: "reply = PList s \<or> (\<exists>kvs. reply = PDict kvs \<and> map_of kvs (PStr ''results'') = Some (PList s))"
  have shape: "\<exists>ms. item body ''memories'' = Some (PList ms) \<and> length ms = length s
        \<and> (\<forall>i<length s. rc (s ! i) = Inr (ms ! i))"
    if "reply_response rt rc reply = Ok body" for rc body
  proof -
    from that obtain ms where c: "collect rt rc reply = Inr ms" and b: "body = memories_body ms"
      by (auto simp: reply_response_def split: sum.splits)
    from c have "append_all rc s [] = Inr ms" by (simp add: collect_accepted [OF acc])
    from append_all_Inr [OF this]
    have "length ms = length s \<and> (\<forall>i<length s. rc (s ! i) = Inr (ms ! i))" by simp
    with b show ?thesis
      by (auto simp: item_memories_body)
  qed
  have total: "\<exists>body. reply_response rt rc reply = Ok body"
    if "\<forall>x\<in>set s. \<exists>r. rc x = Inr r" for rc
  proof -
    from append_all_total [OF that] obtain ms where "append_all rc s [] = Inr ms" by blast
    then have "collect rt rc reply = Inr ms" by (simp add: collect_accepted [OF acc])
    then show ?thesis by (simp add: reply_response_def)
  qed
  show ?thesis
  proof (intro conjI impI allI)
    fix body
    assume "search m (query request) (search_user_id request) (limit request) (engine_state w)
        = (Inr reply, s')"
      and "fst (search_memories rt (Some m) request w) = Ok body"
    then have "reply_response rt (search_record rt) reply = Ok body"
      by (simp add: search_memories_Some)
    from shape [OF this]
    show "\<exists>ms. item body ''memories'' = Some (PList ms) \<and> length ms = length s
        \<and> (\<forall>i<length s. search_record rt (s ! i) = Inr (ms ! i))" .
  next
    assume "search m (query request) (search_user_id request) (limit request) (engine_state w)
        = (Inr reply, s')"
      and "\<forall>x\<in>set s. \<exists>r. search_record rt x = Inr r"
    then show "\<exists>body. fst (search_memories rt (Some m) request w) = Ok body"
      using total [of "search_record rt"] by (simp add: search_memories_Some)
  next
    fix body
    assume "get_all m uid (engine_state w) = (Inr reply, s')"
      and "fst (get_all_memories rt (Some m) uid w) = Ok body"
    then have "reply_response rt (all_record rt) reply = Ok body"
      by (simp add: get_all_memories_Some)
    from shape [OF this]
    show "\<exists>ms. item body ''memories'' = Some (PList ms) \<and> length ms = length s
        \<and> (\<forall>i<length s. all_record rt (s ! i) = Inr (ms ! i))" .
  next
    assume "get_all m uid (engine_state w) = (Inr reply, s')"
      and "\<forall>x\<in>set s. \<exists>r. all_record rt x = Inr r"
    then show "\<exists>body. fst (get_all_memories rt (Some m) uid w) = Ok body"
      using total [of "all_record rt"] by (simp add: get_all_memories_Some)
  qed
qed

theorem one_record_per_engine_record_witness:
  "fst (search_memories sample_runtime
      (Some (replying (Inr (PDict [(PStr ''results'',
          PList [PDict [(PStr ''id'', PStr ''1'')], PDict [(PStr ''id'', PStr ''2'')]])]))))
      \<lparr>query = ''q'', search_user_id = ''alice'', limit = 1\<rparr> fresh)
     = Ok (PDict [(PStr ''success'', PBool True), (PStr ''count'', PInt 2),
                  (PStr ''memories'',
                   PList [PDict [(PStr ''id'', PStr ''1''), (PStr ''memory'', PStr []),
                                 (PStr ''score'', PFloat 0), (PStr ''metadata'', PDict [])],
                          PDict [(PStr ''id'', PStr ''2''), (PStr ''memory'', PStr []),
                                 (PStr ''score'', PFloat 0), (PStr ''metadata'', PDict [])]])])
   \<and> (\<exists>ms. length ms = 2
        \<and> (\<forall>i<2. search_record sample_runtime
              ([PDict [(PStr ''id'', PStr ''1'')], PDict [(PStr ''id'', PStr ''2'')]] ! i)
            = Inr (ms ! i)))
   \<and> fst (get_all_memories sample_runtime
      (Some (replying (Inr (PDict [(PStr ''results'',
          PList [PDict [(PStr ''id'', PStr ''1'')], PDict [(PStr ''id'', PStr ''2'')]])]))))
      ''alice'' fresh)
     = Ok (PDict [(PStr ''success'', PBool True), (PStr ''count'', PInt 2),
                  (PStr ''memories'',
                   PList [PDict [(PStr ''id'', PStr ''1''), (PStr ''memory'', PStr []),
                                 (PStr ''metadata'', PDict [])],
                          PDict [(PStr ''id'', PStr ''2''), (PStr ''memory'', PStr []),
                                 (PStr ''metadata'', PDict [])]])])
   \<and> (\<exists>ms. length ms = 2
        \<and> (\<forall>i<2. all_record sample_runtime
              ([PDict [(PStr ''id'', PStr ''1'')], PDict [(PStr ''id'', PStr ''2'')]] ! i)
            = Inr (ms ! i)))"
proof -
  let ?s = "[PDict [(PStr ''id'', PStr ''1'')], PDict [(PStr ''id'', PStr ''2'')]] :: real pyval list"
  let ?reply = "PDict [(PStr ''results'', PList ?s)] :: real pyval"
  let ?m = "replying (Inr ?reply) :: (real, nat) Memory"
  let ?req = "\<lparr>query = ''q'', search_user_id = ''alice'', limit = 1\<rparr>"
  have acc: "?reply = PList ?s
      \<or> (\<exists>kvs. ?reply = PDict kvs \<and> map_of kvs (PStr ''results'') = Some (PList ?s))"
    by simp
  have h1: "search ?m (query ?req) (search_user_id ?req) (limit ?req) (engine_state fresh)
      = (Inr ?reply, 1)"
    by (simp add: replying_def fresh_def)
  have h2: "get_all ?m ''alice'' (engine_state fresh) = (Inr ?reply, 1)"
    by (simp add: replying_def fresh_def)
  have n1: "\<forall>x\<in>set ?s. \<exists>r. search_record sample_runtime x = Inr r"
    by (simp add: search_record_def dict_get_def)
  have n2: "\<forall>x\<in>set ?s. \<exists>r. all_record sample_runtime x = Inr r"
    by (simp add: all_record_def)
  have s: "fst (search_memories sample_runtime (Some ?m) ?req fresh)
     = Ok (PDict [(PStr ''success'', PBool True), (PStr ''count'', PInt 2),
                  (PStr ''memories'',
                   PList [PDict [(PStr ''id'', PStr ''1''), (PStr ''memory'', PStr []),
                                 (PStr ''score'', PFloat 0), (PStr ''metadata'', PDict [])],
                          PDict [(PStr ''id'', PStr ''2''), (PStr ''memory'', PStr []),
                                 (PStr ''score'', PFloat 0), (PStr ''metadata'', PDict [])]])])"
    by (simp add: search_memories_def memory_search_def invoke_def replying_def fresh_def
        reply_response_def collect_def result_list_def search_record_def dict_get_def
        memories_body_def sample_runtime_def)
  have l: "fst (get_all_memories sample_runtime (Some ?m) ''alice'' fresh)
     = Ok (PDict [(PStr ''success'', PBool True), (PStr ''count'', PInt 2),
                  (PStr ''memories'',
                   PList [PDict [(PStr ''id'', PStr ''1''), (PStr ''memory'', PStr []),
                                 (PStr ''metadata'', PDict [])],
                          PDict [(PStr ''id'', PStr ''2''), (PStr ''memory'', PStr []),
                                 (PStr ''metadata'', PDict [])]])])"
    by (simp add: get_all_memories_def memory_get_all_def invoke_def replying_def fresh_def
        reply_response_def collect_def result_list_def all_record_def dict_get_def
        memories_body_def)
  note inst = one_record_per_engine_record [OF acc, of ?m ?req fresh 1 sample_runtime "''alice''"]
  from inst h1 s have "\<exists>ms. item (PDict [(PStr ''success'', PBool True), (PStr ''count'', PInt 2),
                  (PStr ''memories'',
                   PList [PDict [(PStr ''id'', PStr ''1''), (PStr ''memory'', PStr []),
                                 (PStr ''score'', PFloat 0), (PStr ''metadata'', PDict [])],
                          PDict [(PStr ''id'', PStr ''2''), (PStr ''memory'', PStr []),
                                 (PStr ''score'', PFloat 0), (PStr ''metadata'', PDict [])]])])
        ''memories'' = Some (PList ms) \<and> length ms = length ?s
      \<and> (\<forall>i<length ?s. search_record sample_runtime (?s ! i) = Inr (ms ! i))"
    by blast
  then obtain msa where "length msa = length ?s"
    and "\<forall>i<length ?s. search_record sample_runtime (?s ! i) = Inr (msa ! i)"
    by blast
  then have "length msa = 2 \<and> (\<forall>i<2. search_record sample_runtime (?s ! i) = Inr (msa ! i))"
    by simp
  then have a: "\<exists>ms. length ms = 2
      \<and> (\<forall>i<2. search_record sample_runtime (?s ! i) = Inr (ms ! i))"
    by blast
  from inst h2 l have "\<exists>ms. item (PDict [(PStr ''success'', PBool True), (PStr ''count'', PInt 2),
                  (PStr ''memories'',
                   PList [PDict [(PStr ''id'', PStr ''1''), (PStr ''memory'', PStr []),
                                 (PStr ''metadata'', PDict [])],
                          PDict [(PStr ''id'', PStr ''2''), (PStr ''memory'', PStr []),
                                 (PStr ''metadata'', PDict [])]])])
        ''memories'' = Some (PList ms) \<and> length ms = length ?s
      \<and> (\<forall>i<length ?s. all_record sample_runtime (?s ! i) = Inr (ms ! i))"
    by blast
  then obtain msb where "length msb = length ?s"
    and "\<forall>i<length ?s. all_record sample_runtime (?s ! i) = Inr (msb ! i)"
    by blast
  then have "length msb = 2 \<and> (\<forall>i<2. all_record sample_runtime (?s ! i) = Inr (msb ! i))"
    by simp
  then have b: "\<exists>ms. length ms = 2
      \<and> (\<forall>i<2. all_record sample_runtime (?s ! i) = Inr (ms ! i))"
    by blast
  from inst h1 n1 have "\<exists>body. fst (search_memories sample_runtime (Some ?m) ?req fresh) = Ok body"
    by blast
  moreover from inst h2 n2
  have "\<exists>body. fst (get_all_memories sample_runtime (Some ?m) ''alice'' fresh) = Ok body"
    by blast
  ultimately show ?thesis using s l a b by blast
qed

end
